theory Spec2Isabelle
  imports Main
begin

section \<open>MindRemember API: users, tokens and owner-scoped entities\<close>

text \<open>
  A shallow embedding of \<^verbatim>\<open>src/users/service.py\<close>, \<^verbatim>\<open>src/users/dependencies.py\<close>,
  \<^verbatim>\<open>src/users/router.py\<close> and \<^verbatim>\<open>src/users/models.py\<close>.

  Every coroutine becomes a function that takes the database session and returns what the
  coroutine returns or raises, together with the session afterwards. An exception is the
  \<open>Inl\<close> side of a sum. The wall clock, the salt drawn by the password hasher and an
  exception raised by the store during a write are inputs of the functions that read them.
\<close>

subsection \<open>Values\<close>

text \<open>
  Points in time are whole seconds since the epoch; a \<^verbatim>\<open>timedelta\<close> is a number of
  seconds. The token library keeps whole seconds only (it converts \<^verbatim>\<open>exp\<close> with
  \<^verbatim>\<open>timegm\<close>), and no function of the program looks at anything finer.
\<close>

type_synonym datetime = int
type_synonym timedelta = int

text \<open>
  Exceptions. \<^verbatim>\<open>HTTPException(status_code, detail, headers)\<close> is what the handlers raise
  on purpose. \<open>store_exc\<close> are the exceptions of the database layer: \<^verbatim>\<open>IntegrityError\<close>
  and two of its siblings under \<^verbatim>\<open>sqlalchemy.exc.DBAPIError\<close>; \<open>StoreException\<close> is such
  an exception leaving a function uncaught. \<open>PasswordSizeError\<close> and
  \<open>PasswordValueError\<close> are the exceptions with which the password hasher refuses a
  secret; no function of the program catches them.
\<close>

datatype store_exc = IntegrityError | OperationalError | DataError

datatype exn =
    HTTPException nat string "(string \<times> string) list"
  | StoreException store_exc
  | PasswordSizeError
  | PasswordValueError

definition HTTP_400_BAD_REQUEST :: nat where "HTTP_400_BAD_REQUEST = 400"
definition HTTP_401_UNAUTHORIZED :: nat where "HTTP_401_UNAUTHORIZED = 401"
definition HTTP_409_CONFLICT :: nat where "HTTP_409_CONFLICT = 409"

subsection \<open>Password hashing\<close>

text \<open>
  \<^verbatim>\<open>pwd_context = CryptContext(schemes=["bcrypt"])\<close> belongs to passlib, not to the
  repository. It is modelled symbolically: a hash is the pair of the salt that was drawn and
  the secret that was hashed, and nothing but \<open>verify\<close> looks inside it. The salt is an
  input of \<open>get_password_hash\<close>, since bcrypt draws a fresh one at every call.

  Both \<^verbatim>\<open>pwd_context.hash\<close> and \<^verbatim>\<open>pwd_context.verify\<close> first check the secret they are
  given, a string of bytes here: one longer than 4096 bytes is refused with
  \<open>PasswordSizeError\<close>, one that holds a NUL byte with \<open>PasswordValueError\<close>. bcrypt
  reads the first 72 bytes of a secret and no more.
\<close>

datatype pw_hash = Bcrypt (salt_of: string) (secret_of: string)

definition MAX_PASSWORD_SIZE :: nat where "MAX_PASSWORD_SIZE = 4096"

definition secret_error :: "string \<Rightarrow> exn option" where
  "secret_error secret =
     (if MAX_PASSWORD_SIZE < length secret then Some PasswordSizeError
      else if CHR 0x00 \<in> set secret then Some PasswordValueError
      else None)"

definition get_password_hash :: "string \<Rightarrow> string \<Rightarrow> exn + pw_hash" where
  "get_password_hash salt password =
     (case secret_error password of
        Some e \<Rightarrow> Inl e
      | None \<Rightarrow> Inr (Bcrypt salt (take 72 password)))"

definition verify_password :: "string \<Rightarrow> pw_hash \<Rightarrow> exn + bool" where
  "verify_password plain_password hashed_password =
     (case secret_error plain_password of
        Some e \<Rightarrow> Inl e
      | None \<Rightarrow> Inr (Bcrypt (salt_of hashed_password) (take 72 plain_password) = hashed_password))"

subsection \<open>Rows (models.py)\<close>

text \<open>
  One record per mapped class. A nullable column is an \<open>option\<close>; the primary key is
  \<open>None\<close> on an object that has not been flushed, as in Python.
\<close>

record User =
  u_id :: "int option"
  u_login :: string
  u_password :: pw_hash

record Folder =
  f_id :: "int option"
  text_folder :: string
  number_of_topics :: "int option"
  f_last_open_date_time :: "datetime option"
  f_user_id :: "int option"

record Theme =
  t_id :: "int option"
  name_theme :: string
  t_last_open_date_time :: "datetime option"
  number_of_records :: "int option"
  t_folder_id :: "int option"

record Record =
  r_id :: "int option"
  name_record :: string
  text_records :: "string option"
  r_last_open_date_time :: "datetime option"
  count_text :: "int option"
  r_theme_id :: "int option"

record KnowledgeQueue =
  q_id :: "int option"
  content_knowledge_queue :: string
  completed_task_status :: "bool option"
  number_of_cycles :: "int option"
  create_date_time :: "datetime option"
  next_alert_card :: "datetime option"
  q_user_id :: "int option"

text \<open>
  The session: the five tables, each in insertion order.
\<close>

record session =
  users :: "User list"
  folders :: "Folder list"
  themes :: "Theme list"
  records :: "Record list"
  knowledge_queues :: "KnowledgeQueue list"

subsection \<open>Request and response bodies (schemas.py)\<close>

text \<open>
  Modelled from the spec: \<^verbatim>\<open>src/users/schemas.py\<close> is not among the sources. The
  registration body is \<open>{login, password}\<close> and the login body
  \<open>{username, hashed_password}\<close> (spec, section 6). The body of a create request may
  carry any column of its entity except the primary key and the parent key, which the
  service passes itself as a keyword next to \<^verbatim>\<open>**data.dict()\<close>; a field the real schema
  does not declare is \<open>None\<close> here.
\<close>

record UserCreate =
  login :: string
  password :: string

record UserInDB =
  username :: string
  hashed_password :: string

record FolderBase =
  fb_text_folder :: string
  fb_number_of_topics :: "int option"
  fb_last_open_date_time :: "datetime option"

record ThemeCreate =
  tc_name_theme :: string
  tc_last_open_date_time :: "datetime option"
  tc_number_of_records :: "int option"

record RecordCreate =
  rc_name_record :: string
  rc_text_records :: "string option"
  rc_last_open_date_time :: "datetime option"
  rc_count_text :: "int option"

record KnowledgeQueueCreate =
  qc_content_knowledge_queue :: string
  qc_completed_task_status :: "bool option"
  qc_number_of_cycles :: "int option"
  qc_create_date_time :: "datetime option"
  qc_next_alert_card :: "datetime option"

text \<open>What \<^verbatim>\<open>create_user\<close> returns: \<^verbatim>\<open>{"status": 201, "data": new_user}\<close>.\<close>

record created_user =
  status :: nat
  data :: User

subsection \<open>The store\<close>

text \<open>
  The primary key of a new row is one more than the greatest key of its table.
\<close>

fun max_id :: "int option list \<Rightarrow> int" where
  "max_id [] = 0"
| "max_id (None # ks) = max_id ks"
| "max_id (Some k # ks) = max k (max_id ks)"

definition next_id :: "int option list \<Rightarrow> int" where
  "next_id ks = max_id ks + 1"

text \<open>
  A column declared with \<^verbatim>\<open>default=d\<close>: the ORM leaves an attribute whose value is
  \<^verbatim>\<open>None\<close> out of the INSERT, whether it was never set or set to \<^verbatim>\<open>None\<close>, and the
  column's default is stored in its place. A column without a default stores what the
  object holds. In \<^verbatim>\<open>models.py\<close> the counters have \<^verbatim>\<open>default=0\<close>, the completion flag
  \<^verbatim>\<open>default=False\<close>, and \<^verbatim>\<open>last_open_date_time\<close> of themes and records,
  \<^verbatim>\<open>create_date_time\<close> and \<^verbatim>\<open>next_alert_card\<close> have \<^verbatim>\<open>default=datetime.datetime.utcnow\<close>;
  \<^verbatim>\<open>Folder.last_open_date_time\<close> has \<^verbatim>\<open>default=None\<close>, which is no default. The clock is
  read once for a request: the service's \<^verbatim>\<open>utcnow()\<close> and the default's are the same \<open>now\<close>.
\<close>

definition column_default :: "'a \<Rightarrow> 'a option \<Rightarrow> 'a option" where
  "column_default d v = (case v of None \<Rightarrow> Some d | Some x \<Rightarrow> Some x)"

text \<open>
  A write runs in a transaction. \<open>saved\<close> is the store as it was last committed, \<open>current\<close>
  the store as the open transaction sees it. \<open>rollback\<close> gives up what the transaction
  wrote; \<open>commit\<close> makes it the store.

  What the store raises for a reason the tables do not show (an outage, a foreign-key
  violation where the engine enforces them) is an input: \<open>AtCommit e\<close> is raised while
  \<^verbatim>\<open>db.commit()\<close> runs, \<open>AtRefresh e\<close> while \<^verbatim>\<open>db.refresh(obj)\<close> runs, after the commit has
  succeeded. The one constraint the tables decide is \<^verbatim>\<open>unique=True\<close> on \<^verbatim>\<open>users.login\<close>.
\<close>

datatype fault = AtCommit store_exc | AtRefresh store_exc

record transaction =
  saved :: session
  current :: session

definition begin_transaction :: "session \<Rightarrow> transaction" where
  "begin_transaction db = \<lparr>saved = db, current = db\<rparr>"

definition rollback :: "transaction \<Rightarrow> session" where
  "rollback t = saved t"

definition commit :: "transaction \<Rightarrow> fault option \<Rightarrow> store_exc + session" where
  "commit t fault = (case fault of Some (AtCommit e) \<Rightarrow> Inl e | _ \<Rightarrow> Inr (current t))"

text \<open>\<^verbatim>\<open>db.refresh(obj)\<close> reloads the object from the row that was written for it.\<close>

definition refresh :: "'r \<Rightarrow> fault option \<Rightarrow> store_exc + 'r" where
  "refresh row fault = (case fault of Some (AtRefresh e) \<Rightarrow> Inl e | _ \<Rightarrow> Inr row)"

text \<open>
  \<^verbatim>\<open>db.add(obj)\<close> and the INSERT with which the commit flushes it, for an object of each
  mapped class: the row is written into the open transaction with a fresh primary key and
  its column defaults. The objects the service builds never carry a key of their own.
\<close>

definition flush_user :: "User \<Rightarrow> transaction \<Rightarrow> store_exc + (User \<times> transaction)" where
  "flush_user obj t =
     (let db = current t
      in if u_login obj \<in> set (map u_login (users db)) then Inl IntegrityError
         else
           let row = obj\<lparr>u_id := Some (next_id (map u_id (users db)))\<rparr>
           in Inr (row, t\<lparr>current := db\<lparr>users := users db @ [row]\<rparr>\<rparr>))"

definition flush_folder :: "Folder \<Rightarrow> transaction \<Rightarrow> Folder \<times> transaction" where
  "flush_folder obj t =
     (let db = current t;
          row = obj\<lparr>f_id := Some (next_id (map f_id (folders db))),
                    number_of_topics := column_default 0 (number_of_topics obj)\<rparr>
      in (row, t\<lparr>current := db\<lparr>folders := folders db @ [row]\<rparr>\<rparr>))"

definition flush_theme :: "Theme \<Rightarrow> transaction \<Rightarrow> datetime \<Rightarrow> Theme \<times> transaction" where
  "flush_theme obj t now =
     (let db = current t;
          row = obj\<lparr>t_id := Some (next_id (map t_id (themes db))),
                    t_last_open_date_time := column_default now (t_last_open_date_time obj),
                    number_of_records := column_default 0 (number_of_records obj)\<rparr>
      in (row, t\<lparr>current := db\<lparr>themes := themes db @ [row]\<rparr>\<rparr>))"

definition flush_record :: "Record \<Rightarrow> transaction \<Rightarrow> datetime \<Rightarrow> Record \<times> transaction" where
  "flush_record obj t now =
     (let db = current t;
          row = obj\<lparr>r_id := Some (next_id (map r_id (records db))),
                    r_last_open_date_time := column_default now (r_last_open_date_time obj),
                    count_text := column_default 0 (count_text obj)\<rparr>
      in (row, t\<lparr>current := db\<lparr>records := records db @ [row]\<rparr>\<rparr>))"

definition flush_knowledge_queue ::
  "KnowledgeQueue \<Rightarrow> transaction \<Rightarrow> datetime \<Rightarrow> KnowledgeQueue \<times> transaction" where
  "flush_knowledge_queue obj t now =
     (let db = current t;
          row = obj\<lparr>q_id := Some (next_id (map q_id (knowledge_queues db))),
                    completed_task_status := column_default False (completed_task_status obj),
                    number_of_cycles := column_default 0 (number_of_cycles obj),
                    create_date_time := column_default now (create_date_time obj),
                    next_alert_card := column_default now (next_alert_card obj)\<rparr>
      in (row, t\<lparr>current := db\<lparr>knowledge_queues := knowledge_queues db @ [row]\<rparr>\<rparr>))"

text \<open>
  The rest of a \<^verbatim>\<open>try\<close> body, \<^verbatim>\<open>await db.commit(); await db.refresh(obj)\<close>. It ends with
  the reloaded row and the store, or with the exception and the transaction it was raised
  in: the one of the write when the commit raised, a new one on the committed store when the
  reload raised.
\<close>

definition commit_refresh ::
  "'r \<Rightarrow> transaction \<Rightarrow> fault option \<Rightarrow> (store_exc \<times> transaction) + ('r \<times> session)" where
  "commit_refresh row t fault =
     (case commit t fault of
        Inl e \<Rightarrow> Inl (e, t)
      | Inr db' \<Rightarrow>
          (case refresh row fault of
             Inl e \<Rightarrow> Inl (e, begin_transaction db')
           | Inr row' \<Rightarrow> Inr (row', db')))"

text \<open>The whole \<^verbatim>\<open>try\<close> body, \<^verbatim>\<open>db.add(obj); await db.commit(); await db.refresh(obj)\<close>.\<close>

definition commit_user ::
  "User \<Rightarrow> session \<Rightarrow> fault option \<Rightarrow> (store_exc \<times> transaction) + (User \<times> session)" where
  "commit_user obj db fault =
     (case flush_user obj (begin_transaction db) of
        Inl e \<Rightarrow> Inl (e, begin_transaction db)
      | Inr (row, t) \<Rightarrow> commit_refresh row t fault)"

definition commit_folder ::
  "Folder \<Rightarrow> session \<Rightarrow> fault option \<Rightarrow> (store_exc \<times> transaction) + (Folder \<times> session)" where
  "commit_folder obj db fault =
     (case flush_folder obj (begin_transaction db) of (row, t) \<Rightarrow> commit_refresh row t fault)"

definition commit_theme ::
  "Theme \<Rightarrow> session \<Rightarrow> datetime \<Rightarrow> fault option \<Rightarrow>
     (store_exc \<times> transaction) + (Theme \<times> session)" where
  "commit_theme obj db now fault =
     (case flush_theme obj (begin_transaction db) now of (row, t) \<Rightarrow> commit_refresh row t fault)"

definition commit_record ::
  "Record \<Rightarrow> session \<Rightarrow> datetime \<Rightarrow> fault option \<Rightarrow>
     (store_exc \<times> transaction) + (Record \<times> session)" where
  "commit_record obj db now fault =
     (case flush_record obj (begin_transaction db) now of (row, t) \<Rightarrow> commit_refresh row t fault)"

definition commit_knowledge_queue ::
  "KnowledgeQueue \<Rightarrow> session \<Rightarrow> datetime \<Rightarrow> fault option \<Rightarrow>
     (store_exc \<times> transaction) + (KnowledgeQueue \<times> session)" where
  "commit_knowledge_queue obj db now fault =
     (case flush_knowledge_queue obj (begin_transaction db) now of
        (row, t) \<Rightarrow> commit_refresh row t fault)"

subsection \<open>User operations (service.py, dependencies.py)\<close>

text \<open>\<^verbatim>\<open>select(User).where(User.login == username)\<close>, then \<^verbatim>\<open>.scalars().first()\<close>.\<close>

definition get_user :: "session \<Rightarrow> string \<Rightarrow> User option" where
  "get_user db name = find (\<lambda>u. u_login u = name) (users db)"

text \<open>The detail of the 409 raised by \<^verbatim>\<open>check_unique_login\<close>, as its UTF-8 bytes.\<close>

definition login_registered_detail :: string where
  "login_registered_detail =
    [CHR 0xD0, CHR 0x9F, CHR 0xD0, CHR 0xBE, CHR 0xD0, CHR 0xBB, CHR 0xD1, CHR 0x8C, CHR 0xD0,
     CHR 0xB7, CHR 0xD0, CHR 0xBE, CHR 0xD0, CHR 0xB2, CHR 0xD0, CHR 0xB0, CHR 0xD1, CHR 0x82,
     CHR 0xD0, CHR 0xB5, CHR 0xD0, CHR 0xBB, CHR 0xD1, CHR 0x8C, CHR 0x20, CHR 0xD1, CHR 0x81,
     CHR 0x20, CHR 0xD1, CHR 0x82, CHR 0xD0, CHR 0xB0, CHR 0xD0, CHR 0xBA, CHR 0xD0, CHR 0xB8,
     CHR 0xD0, CHR 0xBC, CHR 0x20, CHR 0xD0, CHR 0xBB, CHR 0xD0, CHR 0xBE, CHR 0xD0, CHR 0xB3,
     CHR 0xD0, CHR 0xB8, CHR 0xD0, CHR 0xBD, CHR 0xD0, CHR 0xBE, CHR 0xD0, CHR 0xBC, CHR 0x20,
     CHR 0xD1, CHR 0x83, CHR 0xD0, CHR 0xB6, CHR 0xD0, CHR 0xB5, CHR 0x20, CHR 0xD0, CHR 0xB7,
     CHR 0xD0, CHR 0xB0, CHR 0xD1, CHR 0x80, CHR 0xD0, CHR 0xB5, CHR 0xD0, CHR 0xB3, CHR 0xD0,
     CHR 0xB8, CHR 0xD1, CHR 0x81, CHR 0xD1, CHR 0x82, CHR 0xD1, CHR 0x80, CHR 0xD0, CHR 0xB8,
     CHR 0xD1, CHR 0x80, CHR 0xD0, CHR 0xBE, CHR 0xD0, CHR 0xB2, CHR 0xD0, CHR 0xB0, CHR 0xD0,
     CHR 0xBD, CHR 0x20, CHR 0xD0, CHR 0xB2, CHR 0x20, CHR 0xD0, CHR 0xB1, CHR 0xD0, CHR 0xB0,
     CHR 0xD0, CHR 0xB7, CHR 0xD0, CHR 0xB5, CHR 0x20, CHR 0xD0, CHR 0xB4, CHR 0xD0, CHR 0xB0,
     CHR 0xD0, CHR 0xBD, CHR 0xD0, CHR 0xBD, CHR 0xD1, CHR 0x8B, CHR 0xD1, CHR 0x85, CHR 0x2E]"

definition check_unique_login :: "UserCreate \<Rightarrow> session \<Rightarrow> exn + unit" where
  "check_unique_login user db =
     (case find (\<lambda>u. u_login u = login user) (users db) of
        Some existing_user \<Rightarrow> Inl (HTTPException HTTP_409_CONFLICT login_registered_detail [])
      | None \<Rightarrow> Inr ())"

text \<open>
  \<^verbatim>\<open>create_user\<close>. The password is hashed before the \<^verbatim>\<open>try\<close>: what the hasher raises
  leaves the function at once. Of what the \<^verbatim>\<open>try\<close> body raises only \<^verbatim>\<open>IntegrityError\<close> is
  caught, and the session rolled back. Any other exception of the store leaves the function
  as it is, without a rollback: the store stays as it was last committed.
\<close>

definition create_user ::
  "UserCreate \<Rightarrow> session \<Rightarrow> string \<Rightarrow> fault option \<Rightarrow> (exn + created_user) \<times> session" where
  "create_user user db salt fault =
     (case get_password_hash salt (password user) of
        Inl e \<Rightarrow> (Inl e, db)
      | Inr hashed \<Rightarrow>
          let new_user = \<lparr>u_id = None, u_login = login user, u_password = hashed\<rparr>
          in case commit_user new_user db fault of
               Inl (IntegrityError, t) \<Rightarrow>
                 (Inl (HTTPException HTTP_400_BAD_REQUEST
                         ''A user with this login already exists.'' []), rollback t)
             | Inl (e, t) \<Rightarrow> (Inl (StoreException e), saved t)
             | Inr (row, db') \<Rightarrow> (Inr \<lparr>status = 201, data = row\<rparr>, db'))"

text \<open>
  \<^verbatim>\<open>authenticate_user\<close> returns the user, or \<^verbatim>\<open>False\<close> (here \<open>None\<close>); what
  \<^verbatim>\<open>verify_password\<close> raises leaves it uncaught.
\<close>

definition authenticate_user :: "session \<Rightarrow> string \<Rightarrow> string \<Rightarrow> exn + User option" where
  "authenticate_user db name pw =
     (case get_user db name of
        None \<Rightarrow> Inr None
      | Some user \<Rightarrow>
          (case verify_password pw (u_password user) of
             Inl e \<Rightarrow> Inl e
           | Inr verified \<Rightarrow> if \<not> verified then Inr None else Inr (Some user)))"

subsection \<open>Tokenization (service.py)\<close>

text \<open>
  The configuration the program imports from \<^verbatim>\<open>src/config.py\<close>, which is not among the
  sources: it is a parameter of every function that reads it. The time to live is a whole
  number of minutes.
\<close>

record config =
  SECRET_KEY :: string
  ALGORITHM :: string
  ACCESS_TOKEN_EXPIRE_MINUTES :: int

text \<open>
  The payload of a token, a Python dict of which the program writes and reads two keys:
  \<^verbatim>\<open>"sub"\<close> and \<^verbatim>\<open>"exp"\<close>. A key that is absent is \<open>None\<close>.
\<close>

record claims =
  sub :: "string option"
  expiry :: "datetime option"

text \<open>
  \<^verbatim>\<open>jwt.encode\<close> and \<^verbatim>\<open>jwt.decode\<close> belong to python-jose, not to the repository. They
  are modelled symbolically. A cookie value either does not parse as three segments of
  base64 JSON (\<open>Malformed\<close>), or it carries the algorithm named in its header, a payload
  and a signature. A signature stands for the key, the algorithm and the payload it was
  computed from, and two signatures are equal only when all three are: flipping a byte of a
  signature gives a signature of something else.

  \<open>jwt_decode\<close> fails as the library does, in its order: the token does not parse; the
  header's algorithm is not one of \<^verbatim>\<open>algorithms\<close>; the signature is not the one the key
  gives; \<^verbatim>\<open>exp\<close> is present and lies before the current second. Each failure is a
  \<^verbatim>\<open>JWTError\<close>.
\<close>

datatype signature = Sign string string claims

datatype token = Malformed string | Compact string claims signature

datatype JWTError = NotEnoughSegments | AlgorithmNotAllowed | SignatureVerificationFailed
  | ExpiredSignatureError

definition jwt_encode :: "claims \<Rightarrow> string \<Rightarrow> string \<Rightarrow> token" where
  "jwt_encode payload key algorithm = Compact algorithm payload (Sign key algorithm payload)"

fun jwt_decode :: "token \<Rightarrow> string \<Rightarrow> string list \<Rightarrow> datetime \<Rightarrow> JWTError + claims" where
  "jwt_decode (Malformed s) key algorithms now = Inl NotEnoughSegments"
| "jwt_decode (Compact alg payload sig) key algorithms now =
     (if alg \<notin> set algorithms then Inl AlgorithmNotAllowed
      else if sig \<noteq> Sign key alg payload then Inl SignatureVerificationFailed
      else case expiry payload of
             None \<Rightarrow> Inr payload
           | Some e \<Rightarrow> if e < now then Inl ExpiredSignatureError else Inr payload)"

text \<open>
  \<^verbatim>\<open>create_access_token\<close>. \<^verbatim>\<open>if expires_delta:\<close> is Python's truth test: \<^verbatim>\<open>None\<close> and
  \<^verbatim>\<open>timedelta(0)\<close> are both false.
\<close>

definition create_access_token :: "config \<Rightarrow> claims \<Rightarrow> timedelta option \<Rightarrow> datetime \<Rightarrow> token" where
  "create_access_token cfg data_in expires_delta now =
     (let to_encode = data_in;
          expire = (if expires_delta \<noteq> None \<and> expires_delta \<noteq> Some 0
                    then now + the expires_delta
                    else now + 60 * ACCESS_TOKEN_EXPIRE_MINUTES cfg);
          to_encode = to_encode\<lparr>expiry := Some expire\<rparr>
      in jwt_encode to_encode (SECRET_KEY cfg) (ALGORITHM cfg))"

text \<open>
  \<^verbatim>\<open>get_current_user\<close>: the one exception it raises, and the resolver. The cookie is
  \<open>None\<close> when the request carries none.
\<close>

definition credentials_exception :: exn where
  "credentials_exception =
     HTTPException HTTP_401_UNAUTHORIZED ''Could not verify credentials''
       [(''WWW-Authenticate'', ''Bearer'')]"

definition get_current_user :: "config \<Rightarrow> token option \<Rightarrow> session \<Rightarrow> datetime \<Rightarrow> exn + User" where
  "get_current_user cfg cookie db now =
     (case cookie of
        None \<Rightarrow> Inl credentials_exception
      | Some tok \<Rightarrow>
          (case jwt_decode tok (SECRET_KEY cfg) [ALGORITHM cfg] now of
             Inl e \<Rightarrow> Inl credentials_exception
           | Inr payload \<Rightarrow>
               (case sub payload of
                  None \<Rightarrow> Inl credentials_exception
                | Some name \<Rightarrow>
                    (case get_user db name of
                       None \<Rightarrow> Inl credentials_exception
                     | Some user \<Rightarrow> Inr user))))"

subsection \<open>Folder, theme, record and knowledge-queue services (service.py)\<close>

text \<open>
  Each \<^verbatim>\<open>add_*\<close> builds the object from the request body and the parent key, stamps a
  time, and runs the \<^verbatim>\<open>try\<close> body; whatever that raises is caught, the session is rolled
  back and the operation's own 400 is raised.
  \<open>user_id\<close> is \<^verbatim>\<open>current_user.id\<close>, hence an \<open>option\<close>; \<open>folder_id\<close> and \<open>theme_id\<close>
  are path parameters. A \<^verbatim>\<open>select(...).where(col == key)\<close> followed by \<^verbatim>\<open>.scalars().all()\<close>
  is the table filtered in its order.
\<close>

definition add_folder ::
  "FolderBase \<Rightarrow> int option \<Rightarrow> session \<Rightarrow> datetime \<Rightarrow> fault option \<Rightarrow>
     (exn + Folder) \<times> session" where
  "add_folder folder_data user_id db now fault =
     (let new_folder = \<lparr>f_id = None, text_folder = fb_text_folder folder_data,
                         number_of_topics = fb_number_of_topics folder_data,
                         f_last_open_date_time = fb_last_open_date_time folder_data,
                         f_user_id = user_id\<rparr>;
          new_folder = new_folder\<lparr>f_last_open_date_time := Some now\<rparr>
      in case commit_folder new_folder db fault of
           Inl (e, t) \<Rightarrow>
             (Inl (HTTPException HTTP_400_BAD_REQUEST ''Failed to add folder.'' []), rollback t)
         | Inr (row, db') \<Rightarrow> (Inr row, db'))"

definition get_user_folders :: "int option \<Rightarrow> session \<Rightarrow> Folder list" where
  "get_user_folders user_id db = filter (\<lambda>f. f_user_id f = user_id) (folders db)"

definition add_theme ::
  "ThemeCreate \<Rightarrow> int \<Rightarrow> session \<Rightarrow> datetime \<Rightarrow> fault option \<Rightarrow>
     (exn + Theme) \<times> session" where
  "add_theme theme_data folder_id db now fault =
     (let new_theme = \<lparr>t_id = None, name_theme = tc_name_theme theme_data,
                        t_last_open_date_time = tc_last_open_date_time theme_data,
                        number_of_records = tc_number_of_records theme_data,
                        t_folder_id = Some folder_id\<rparr>;
          new_theme = new_theme\<lparr>t_last_open_date_time := Some now\<rparr>
      in case commit_theme new_theme db now fault of
           Inl (e, t) \<Rightarrow>
             (Inl (HTTPException HTTP_400_BAD_REQUEST ''Failed to add theme.'' []), rollback t)
         | Inr (row, db') \<Rightarrow> (Inr row, db'))"

definition get_themes_by_folder :: "int \<Rightarrow> session \<Rightarrow> Theme list" where
  "get_themes_by_folder folder_id db = filter (\<lambda>t. t_folder_id t = Some folder_id) (themes db)"

definition add_record ::
  "RecordCreate \<Rightarrow> int \<Rightarrow> session \<Rightarrow> datetime \<Rightarrow> fault option \<Rightarrow>
     (exn + Record) \<times> session" where
  "add_record record_data theme_id db now fault =
     (let new_record = \<lparr>r_id = None, name_record = rc_name_record record_data,
                         text_records = rc_text_records record_data,
                         r_last_open_date_time = rc_last_open_date_time record_data,
                         count_text = rc_count_text record_data,
                         r_theme_id = Some theme_id\<rparr>;
          new_record = new_record\<lparr>r_last_open_date_time := Some now\<rparr>
      in case commit_record new_record db now fault of
           Inl (e, t) \<Rightarrow>
             (Inl (HTTPException HTTP_400_BAD_REQUEST ''Failed to add record.'' []), rollback t)
         | Inr (row, db') \<Rightarrow> (Inr row, db'))"

definition get_records_by_theme :: "int \<Rightarrow> session \<Rightarrow> Record list" where
  "get_records_by_theme theme_id db = filter (\<lambda>r. r_theme_id r = Some theme_id) (records db)"

definition add_knowledge_queue ::
  "KnowledgeQueueCreate \<Rightarrow> int option \<Rightarrow> session \<Rightarrow> datetime \<Rightarrow> fault option \<Rightarrow>
     (exn + KnowledgeQueue) \<times> session" where
  "add_knowledge_queue queue_data user_id db now fault =
     (let new_queue = \<lparr>q_id = None,
                        content_knowledge_queue = qc_content_knowledge_queue queue_data,
                        completed_task_status = qc_completed_task_status queue_data,
                        number_of_cycles = qc_number_of_cycles queue_data,
                        create_date_time = qc_create_date_time queue_data,
                        next_alert_card = qc_next_alert_card queue_data,
                        q_user_id = user_id\<rparr>;
          new_queue = new_queue\<lparr>create_date_time := Some now\<rparr>;
          new_queue = new_queue\<lparr>next_alert_card := None\<rparr>
      in case commit_knowledge_queue new_queue db now fault of
           Inl (e, t) \<Rightarrow>
             (Inl (HTTPException HTTP_400_BAD_REQUEST ''Failed to add knowledge queue.'' []),
              rollback t)
         | Inr (row, db') \<Rightarrow> (Inr row, db'))"

definition get_knowledge_queues_by_user :: "int option \<Rightarrow> session \<Rightarrow> KnowledgeQueue list" where
  "get_knowledge_queues_by_user user_id db =
     filter (\<lambda>q. q_user_id q = user_id) (knowledge_queues db)"

subsection \<open>Handlers (router.py)\<close>

text \<open>
  A handler runs after its dependencies: one that declares
  \<^verbatim>\<open>Depends(check_unique_login)\<close> or \<^verbatim>\<open>Depends(get_current_user)\<close> is not entered when the
  dependency raises. \<^verbatim>\<open>read_themes\<close> and \<^verbatim>\<open>read_records\<close> declare the session only.
\<close>

definition add_user ::
  "UserCreate \<Rightarrow> session \<Rightarrow> string \<Rightarrow> fault option \<Rightarrow> (exn + created_user) \<times> session" where
  "add_user user db salt fault =
     (case check_unique_login user db of
        Inl e \<Rightarrow> (Inl e, db)
      | Inr _ \<Rightarrow> create_user user db salt fault)"

record Token =
  access_token :: token
  token_type :: string

record cookie =
  key :: string
  val :: token
  httponly :: bool

definition invalid_credentials :: exn where
  "invalid_credentials =
     HTTPException HTTP_401_UNAUTHORIZED ''Incorrect username or password''
       [(''WWW-Authenticate'', ''Bearer'')]"

text \<open>
  \<^verbatim>\<open>login_for_access_token\<close> returns the \<^verbatim>\<open>Token\<close> body and the cookies it set on the
  response.
\<close>

definition login_for_access_token ::
  "config \<Rightarrow> UserInDB \<Rightarrow> session \<Rightarrow> datetime \<Rightarrow> exn + (Token \<times> cookie list)" where
  "login_for_access_token cfg user db now =
     (case authenticate_user db (username user) (hashed_password user) of
        Inl e \<Rightarrow> Inl e
      | Inr None \<Rightarrow> Inl invalid_credentials
      | Inr (Some u) \<Rightarrow>
          let access_token_expires = 60 * ACCESS_TOKEN_EXPIRE_MINUTES cfg;
              tok = create_access_token cfg \<lparr>sub = Some (u_login u), expiry = None\<rparr>
                      (Some access_token_expires) now
          in Inr (\<lparr>access_token = tok, token_type = ''bearer''\<rparr>,
                  [\<lparr>key = ''access_token'', val = tok, httponly = True\<rparr>]))"

definition add_one_folder ::
  "config \<Rightarrow> FolderBase \<Rightarrow> token option \<Rightarrow> session \<Rightarrow> datetime \<Rightarrow> fault option \<Rightarrow>
     (exn + Folder) \<times> session" where
  "add_one_folder cfg folder_data cookie db now fault =
     (case get_current_user cfg cookie db now of
        Inl e \<Rightarrow> (Inl e, db)
      | Inr current_user \<Rightarrow> add_folder folder_data (u_id current_user) db now fault)"

definition read_user_folders ::
  "config \<Rightarrow> token option \<Rightarrow> session \<Rightarrow> datetime \<Rightarrow> exn + Folder list" where
  "read_user_folders cfg cookie db now =
     (case get_current_user cfg cookie db now of
        Inl e \<Rightarrow> Inl e
      | Inr current_user \<Rightarrow> Inr (get_user_folders (u_id current_user) db))"

definition create_theme ::
  "config \<Rightarrow> int \<Rightarrow> ThemeCreate \<Rightarrow> token option \<Rightarrow> session \<Rightarrow> datetime \<Rightarrow> fault option \<Rightarrow>
     (exn + Theme) \<times> session" where
  "create_theme cfg folder_id theme_data cookie db now fault =
     (case get_current_user cfg cookie db now of
        Inl e \<Rightarrow> (Inl e, db)
      | Inr current_user \<Rightarrow> add_theme theme_data folder_id db now fault)"

definition read_themes :: "int \<Rightarrow> session \<Rightarrow> exn + Theme list" where
  "read_themes folder_id db = Inr (get_themes_by_folder folder_id db)"

definition create_record ::
  "config \<Rightarrow> int \<Rightarrow> RecordCreate \<Rightarrow> token option \<Rightarrow> session \<Rightarrow> datetime \<Rightarrow> fault option \<Rightarrow>
     (exn + Record) \<times> session" where
  "create_record cfg theme_id record_data cookie db now fault =
     (case get_current_user cfg cookie db now of
        Inl e \<Rightarrow> (Inl e, db)
      | Inr current_user \<Rightarrow> add_record record_data theme_id db now fault)"

definition read_records :: "int \<Rightarrow> session \<Rightarrow> exn + Record list" where
  "read_records theme_id db = Inr (get_records_by_theme theme_id db)"

definition create_knowledge_queue ::
  "config \<Rightarrow> KnowledgeQueueCreate \<Rightarrow> token option \<Rightarrow> session \<Rightarrow> datetime \<Rightarrow> fault option \<Rightarrow>
     (exn + KnowledgeQueue) \<times> session" where
  "create_knowledge_queue cfg queue_data cookie db now fault =
     (case get_current_user cfg cookie db now of
        Inl e \<Rightarrow> (Inl e, db)
      | Inr current_user \<Rightarrow> add_knowledge_queue queue_data (u_id current_user) db now fault)"

definition read_knowledge_queue ::
  "config \<Rightarrow> token option \<Rightarrow> session \<Rightarrow> datetime \<Rightarrow> exn + KnowledgeQueue list" where
  "read_knowledge_queue cfg cookie db now =
     (case get_current_user cfg cookie db now of
        Inl e \<Rightarrow> Inl e
      | Inr current_user \<Rightarrow> Inr (get_knowledge_queues_by_user (u_id current_user) db))"

text \<open>
  The routing table of the eight entity operations: which handler serves an operation, and
  that the request's cookie reaches the handlers that declare \<^verbatim>\<open>get_current_user\<close> and no
  other.
\<close>

datatype operation =
    AddOneFolder FolderBase
  | ReadUserFolders
  | CreateTheme int ThemeCreate
  | ReadThemes int
  | CreateRecord int RecordCreate
  | ReadRecords int
  | CreateKnowledgeQueue KnowledgeQueueCreate
  | ReadKnowledgeQueue

datatype body =
    FolderBody Folder
  | FoldersBody "Folder list"
  | ThemeBody Theme
  | ThemesBody "Theme list"
  | RecordBody Record
  | RecordsBody "Record list"
  | QueueBody KnowledgeQueue
  | QueuesBody "KnowledgeQueue list"

fun router ::
  "config \<Rightarrow> operation \<Rightarrow> token option \<Rightarrow> session \<Rightarrow> datetime \<Rightarrow> fault option \<Rightarrow>
     (exn + body) \<times> session" where
  "router cfg (AddOneFolder folder_data) cookie db now fault =
     apfst (map_sum id FolderBody) (add_one_folder cfg folder_data cookie db now fault)"
| "router cfg ReadUserFolders cookie db now fault =
     (map_sum id FoldersBody (read_user_folders cfg cookie db now), db)"
| "router cfg (CreateTheme folder_id theme_data) cookie db now fault =
     apfst (map_sum id ThemeBody) (create_theme cfg folder_id theme_data cookie db now fault)"
| "router cfg (ReadThemes folder_id) cookie db now fault =
     (map_sum id ThemesBody (read_themes folder_id db), db)"
| "router cfg (CreateRecord theme_id record_data) cookie db now fault =
     apfst (map_sum id RecordBody) (create_record cfg theme_id record_data cookie db now fault)"
| "router cfg (ReadRecords theme_id) cookie db now fault =
     (map_sum id RecordsBody (read_records theme_id db), db)"
| "router cfg (CreateKnowledgeQueue queue_data) cookie db now fault =
     apfst (map_sum id QueueBody) (create_knowledge_queue cfg queue_data cookie db now fault)"
| "router cfg ReadKnowledgeQueue cookie db now fault =
     (map_sum id QueuesBody (read_knowledge_queue cfg cookie db now), db)"

subsection \<open>The words of the specification about tokens\<close>

text \<open>
  What the specification calls a well-formed, correctly signed and unexpired token, and
  the subject of a token, said on the token itself and not through \<open>jwt_decode\<close>. A token
  is correctly signed when its header names the configured algorithm and its signature is
  the one the configured key gives for its payload. It is unexpired when it carries an
  expiry and the current time is before it (section 4.2: current time < expiry).
\<close>

definition well_formed :: "token \<Rightarrow> bool" where
  "well_formed tok = (case tok of Malformed s \<Rightarrow> False | Compact alg payload sg \<Rightarrow> True)"

definition correctly_signed :: "config \<Rightarrow> token \<Rightarrow> bool" where
  "correctly_signed cfg tok =
     (case tok of
        Malformed s \<Rightarrow> False
      | Compact alg payload sg \<Rightarrow>
          alg = ALGORITHM cfg \<and> sg = Sign (SECRET_KEY cfg) (ALGORITHM cfg) payload)"

definition unexpired :: "token \<Rightarrow> datetime \<Rightarrow> bool" where
  "unexpired tok now =
     (case tok of
        Malformed s \<Rightarrow> False
      | Compact alg payload sg \<Rightarrow> (case expiry payload of None \<Rightarrow> False | Some e \<Rightarrow> now < e))"

definition subject :: "token \<Rightarrow> string option" where
  "subject tok = (case tok of Malformed s \<Rightarrow> None | Compact alg payload sg \<Rightarrow> sub payload)"

text \<open>
  What the resolver asks of the expiry instead: the token carries none, or the current
  second is not after it.
\<close>

definition not_past_expiry :: "token \<Rightarrow> datetime \<Rightarrow> bool" where
  "not_past_expiry tok now =
     (case tok of
        Malformed s \<Rightarrow> False
      | Compact alg payload sg \<Rightarrow> (case expiry payload of None \<Rightarrow> True | Some e \<Rightarrow> now \<le> e))"

subsection \<open>A small installation\<close>

text \<open>
  A configuration, and the store after \<open>alice\<close> and \<open>bob\<close> have registered
  and \<open>alice\<close> has made the folder \<open>Spanish\<close> with one theme and one record in it.
\<close>

definition cfg0 :: config where
  "cfg0 = \<lparr>SECRET_KEY = ''secret'', ALGORITHM = ''HS256'', ACCESS_TOKEN_EXPIRE_MINUTES = 30\<rparr>"

definition alice :: User where
  "alice = \<lparr>u_id = Some 1, u_login = ''alice'', u_password = Bcrypt ''s1'' ''pw1''\<rparr>"

definition bob :: User where
  "bob = \<lparr>u_id = Some 2, u_login = ''bob'', u_password = Bcrypt ''s2'' ''pw2''\<rparr>"

definition spanish :: Folder where
  "spanish = \<lparr>f_id = Some 1, text_folder = ''Spanish'', number_of_topics = Some 0,
              f_last_open_date_time = Some 100, f_user_id = Some 1\<rparr>"

definition verbs :: Theme where
  "verbs = \<lparr>t_id = Some 1, name_theme = ''Verbs'', t_last_open_date_time = Some 110,
            number_of_records = Some 0, t_folder_id = Some 1\<rparr>"

definition ser :: Record where
  "ser = \<lparr>r_id = Some 1, name_record = ''ser'', text_records = Some ''to be'',
          r_last_open_date_time = Some 120, count_text = Some 0, r_theme_id = Some 1\<rparr>"

definition db1 :: session where
  "db1 = \<lparr>users = [alice, bob], folders = [spanish], themes = [verbs], records = [ser],
          knowledge_queues = []\<rparr>"

text \<open>
  Rows that later requests add to it: a third user, a folder of \<open>bob\<close>, and a second theme
  in the folder of \<open>alice\<close>.
\<close>

definition carol :: User where
  "carol = \<lparr>u_id = Some 3, u_login = ''carol'', u_password = Bcrypt ''s3'' ''pw3''\<rparr>"

definition french :: Folder where
  "french = \<lparr>f_id = Some 2, text_folder = ''French'', number_of_topics = Some 0,
             f_last_open_date_time = Some 1000, f_user_id = Some 2\<rparr>"

definition nouns :: Theme where
  "nouns = \<lparr>t_id = Some 2, name_theme = ''Nouns'', t_last_open_date_time = Some 1000,
            number_of_records = Some 0, t_folder_id = Some 1\<rparr>"

text \<open>The cookie \<open>login_for_access_token\<close> hands a user who logs in at time \<open>now\<close>.\<close>

definition cookie_of :: "string \<Rightarrow> datetime \<Rightarrow> token" where
  "cookie_of name now =
     create_access_token cfg0 \<lparr>sub = Some name, expiry = None\<rparr>
       (Some (60 * ACCESS_TOKEN_EXPIRE_MINUTES cfg0)) now"

section \<open>Properties\<close>

lemmas write_defs =
  commit_folder_def commit_theme_def commit_record_def commit_knowledge_queue_def commit_user_def
  flush_folder_def flush_theme_def flush_record_def flush_knowledge_queue_def flush_user_def
  commit_refresh_def commit_def refresh_def begin_transaction_def rollback_def Let_def

subsection \<open>Identity resolution\<close>

lemma get_user_login: "get_user db name = Some u \<Longrightarrow> u_login u = name"
  unfolding get_user_def by (auto simp: find_Some_iff)

lemma jwt_decode_Inr:
  "jwt_decode tok (SECRET_KEY cfg) [ALGORITHM cfg] now = Inr payload \<longleftrightarrow>
     well_formed tok \<and> correctly_signed cfg tok \<and> not_past_expiry tok now \<and>
     tok = Compact (ALGORITHM cfg) payload (Sign (SECRET_KEY cfg) (ALGORITHM cfg) payload)"
  by (cases tok)
     (auto simp: well_formed_def correctly_signed_def not_past_expiry_def split: option.splits)

lemma cookie_of_alice:
  "cookie_of ''alice'' 1000 =
     Compact ''HS256'' \<lparr>sub = Some ''alice'', expiry = Some 2800\<rparr>
       (Sign ''secret'' ''HS256'' \<lparr>sub = Some ''alice'', expiry = Some 2800\<rparr>)"
  by (simp add: cookie_of_def create_access_token_def jwt_encode_def cfg0_def Let_def)

text \<open>
  C4, as the code has it. The token \<open>alice\<close> was handed at second 1000 expires at second
  2800. At second 2800 the current time is not before the expiry, so the token is not
  unexpired in the specification's sense; the resolver still returns her row.
\<close>

theorem get_current_user_accepts_at_expiry:
  "well_formed (cookie_of ''alice'' 1000) \<and>
   correctly_signed cfg0 (cookie_of ''alice'' 1000) \<and>
   \<not> unexpired (cookie_of ''alice'' 1000) 2800 \<and>
   get_current_user cfg0 (Some (cookie_of ''alice'' 1000)) db1 2800 = Inr alice"
  by (simp add: cookie_of_alice well_formed_def correctly_signed_def unexpired_def
        get_current_user_def cfg0_def get_user_def db1_def alice_def)

text \<open>
  C4, amended. The identity resolver returns a user exactly when the cookie holds a token
  that is well-formed, correctly signed and not past its expiry (it carries none, or the
  current second is not after it) and whose subject is the login of a user of the store;
  that user is the one returned and its login is the token's subject. In every other case
  (no cookie, a malformed token, a signature that does not match, a token past its expiry,
  a subject without a user) it raises the one 401 \<open>credentials_exception\<close>.
\<close>

theorem get_current_user_resolves:
  "(get_current_user cfg cookie db now = Inr u \<longleftrightarrow>
      (\<exists>tok name. cookie = Some tok \<and> well_formed tok \<and> correctly_signed cfg tok \<and>
         not_past_expiry tok now \<and> subject tok = Some name \<and> get_user db name = Some u \<and>
         u_login u = name)) \<and>
   ((\<exists>v. get_current_user cfg cookie db now = Inr v) \<or>
    get_current_user cfg cookie db now = Inl credentials_exception)"
proof (intro conjI iffI)
  assume ok: "get_current_user cfg cookie db now = Inr u"
  then obtain tok where c: "cookie = Some tok"
    by (cases cookie) (simp_all add: get_current_user_def)
  from ok c obtain payload where d: "jwt_decode tok (SECRET_KEY cfg) [ALGORITHM cfg] now = Inr payload"
    by (cases "jwt_decode tok (SECRET_KEY cfg) [ALGORITHM cfg] now")
       (simp_all add: get_current_user_def)
  from ok c d obtain name where s: "sub payload = Some name"
    by (cases "sub payload") (simp_all add: get_current_user_def)
  from ok c d s have g: "get_user db name = Some u"
    by (cases "get_user db name") (simp_all add: get_current_user_def)
  from d have v: "well_formed tok" "correctly_signed cfg tok" "not_past_expiry tok now"
    and t: "tok = Compact (ALGORITHM cfg) payload (Sign (SECRET_KEY cfg) (ALGORITHM cfg) payload)"
    by (auto simp: jwt_decode_Inr)
  from t s have "subject tok = Some name" by (simp add: subject_def)
  with c v g get_user_login[OF g]
  show "\<exists>tok name. cookie = Some tok \<and> well_formed tok \<and> correctly_signed cfg tok \<and>
         not_past_expiry tok now \<and> subject tok = Some name \<and> get_user db name = Some u \<and>
         u_login u = name"
    by blast
next
  assume "\<exists>tok name. cookie = Some tok \<and> well_formed tok \<and> correctly_signed cfg tok \<and>
         not_past_expiry tok now \<and> subject tok = Some name \<and> get_user db name = Some u \<and>
         u_login u = name"
  then obtain tok name where c: "cookie = Some tok" and w: "well_formed tok"
    and cs: "correctly_signed cfg tok" and un: "not_past_expiry tok now"
    and s: "subject tok = Some name" and g: "get_user db name = Some u"
    by blast
  from w obtain alg payload sg where t: "tok = Compact alg payload sg"
    by (cases tok) (simp_all add: well_formed_def)
  with cs have "tok = Compact (ALGORITHM cfg) payload (Sign (SECRET_KEY cfg) (ALGORITHM cfg) payload)"
    by (simp add: correctly_signed_def)
  with w cs un have "jwt_decode tok (SECRET_KEY cfg) [ALGORITHM cfg] now = Inr payload"
    by (simp only: jwt_decode_Inr simp_thms)
  moreover from s t have "sub payload = Some name" by (simp add: subject_def)
  ultimately show "get_current_user cfg cookie db now = Inr u"
    using c g by (simp add: get_current_user_def)
next
  show "(\<exists>v. get_current_user cfg cookie db now = Inr v) \<or>
    get_current_user cfg cookie db now = Inl credentials_exception"
    unfolding get_current_user_def by (auto split: option.splits sum.splits)
qed

text \<open>
  At the cookie \<open>alice\<close> is handed at time 1000 the resolver returns her row, at second
  1000 and at second 2800; at second 2801, and with the last byte of the signing key
  changed, it raises \<open>credentials_exception\<close>.
\<close>

theorem get_current_user_resolves_witness:
  "get_current_user cfg0 (Some (cookie_of ''alice'' 1000)) db1 1000 = Inr alice \<and>
   get_current_user cfg0 (Some (cookie_of ''alice'' 1000)) db1 2800 = Inr alice \<and>
   get_current_user cfg0 (Some (cookie_of ''alice'' 1000)) db1 2801 = Inl credentials_exception \<and>
   u_login alice = ''alice'' \<and>
   get_current_user cfg0
     (Some (Compact ''HS256'' \<lparr>sub = Some ''alice'', expiry = Some 2800\<rparr>
        (Sign ''secreu'' ''HS256'' \<lparr>sub = Some ''alice'', expiry = Some 2800\<rparr>))) db1 1000 =
     Inl credentials_exception"
proof -
  let ?tok = "cookie_of ''alice'' 1000"
  let ?bad = "Compact ''HS256'' \<lparr>sub = Some ''alice'', expiry = Some 2800\<rparr>
        (Sign ''secreu'' ''HS256'' \<lparr>sub = Some ''alice'', expiry = Some 2800\<rparr>)"
  have g: "get_user db1 ''alice'' = Some alice"
    by (simp add: get_user_def db1_def alice_def)
  have p: "well_formed ?tok \<and> correctly_signed cfg0 ?tok \<and> not_past_expiry ?tok 1000 \<and>
        not_past_expiry ?tok 2800 \<and> \<not> not_past_expiry ?tok 2801 \<and>
        subject ?tok = Some ''alice'' \<and> u_login alice = ''alice''"
    by (simp add: cookie_of_alice well_formed_def correctly_signed_def not_past_expiry_def
          subject_def cfg0_def alice_def)
  from g p have 1: "get_current_user cfg0 (Some ?tok) db1 1000 = Inr alice"
    using get_current_user_resolves[of cfg0 "Some ?tok" db1 1000 alice] by blast
  from g p have 2: "get_current_user cfg0 (Some ?tok) db1 2800 = Inr alice"
    using get_current_user_resolves[of cfg0 "Some ?tok" db1 2800 alice] by blast
  from p have 3: "get_current_user cfg0 (Some ?tok) db1 2801 = Inl credentials_exception"
    using get_current_user_resolves[of cfg0 "Some ?tok" db1 2801] by (metis option.inject)
  have "\<not> correctly_signed cfg0 ?bad"
    by (simp add: correctly_signed_def cfg0_def)
  then have 4: "get_current_user cfg0 (Some ?bad) db1 1000 = Inl credentials_exception"
    using get_current_user_resolves[of cfg0 "Some ?bad" db1 1000] by (metis option.inject)
  from 1 2 3 4 p show ?thesis by blast
qed

subsection \<open>Login\<close>

lemma authenticate_user_None:
  "authenticate_user db name pw = Inr None \<longleftrightarrow>
     get_user db name = None \<or>
     (\<exists>u. get_user db name = Some u \<and> verify_password pw (u_password u) = Inr False)"
  by (auto simp: authenticate_user_def split: option.splits sum.splits)

lemma authenticate_user_Inl:
  "authenticate_user db name pw = Inl e \<longleftrightarrow>
     (\<exists>u. get_user db name = Some u) \<and> secret_error pw = Some e"
  by (auto simp: authenticate_user_def verify_password_def split: option.splits sum.splits)

lemma login_Inl:
  "login_for_access_token cfg user db now = Inl e \<longleftrightarrow>
     authenticate_user db (username user) (hashed_password user) = Inl e \<or>
     authenticate_user db (username user) (hashed_password user) = Inr None \<and>
     e = invalid_credentials"
  by (auto simp: login_for_access_token_def Let_def split: option.splits sum.splits)

text \<open>
  A password the hasher accepts: a login attempt fails exactly when the login is unknown or
  the password does not verify against the stored hash, and in both cases with the same
  \<open>invalid_credentials\<close>.
\<close>

lemma login_failures_uniform:
  "secret_error (hashed_password user) = None \<Longrightarrow>
     login_for_access_token cfg user db now = Inl e \<longleftrightarrow>
       (get_user db (username user) = None \<or>
        (\<exists>u. get_user db (username user) = Some u \<and>
             verify_password (hashed_password user) (u_password u) = Inr False)) \<and>
       e = invalid_credentials"
  by (auto simp: login_Inl authenticate_user_None authenticate_user_Inl)

text \<open>
  C3, at a password that holds a NUL byte. For the login \<open>alice\<close>, which is known,
  \<^verbatim>\<open>pwd_context.verify\<close> is reached and raises: the attempt ends in \<open>PasswordValueError\<close>,
  which nothing catches. For the login \<open>zed\<close>, which is unknown, the same password gives
  \<open>invalid_credentials\<close>. The two failures differ, and tell which login exists.
\<close>

theorem login_failure_reveals_known_login:
  "login_for_access_token cfg0
     \<lparr>username = ''alice'', hashed_password = [CHR ''p'', CHR 0x00, CHR ''w'']\<rparr> db1 1000 =
     Inl PasswordValueError \<and>
   login_for_access_token cfg0
     \<lparr>username = ''zed'', hashed_password = [CHR ''p'', CHR 0x00, CHR ''w'']\<rparr> db1 1000 =
     Inl invalid_credentials \<and>
   PasswordValueError \<noteq> invalid_credentials"
  by (simp add: login_for_access_token_def authenticate_user_def verify_password_def
        secret_error_def MAX_PASSWORD_SIZE_def get_user_def db1_def alice_def bob_def
        invalid_credentials_def)

subsection \<open>Registration\<close>

lemma find_login_None:
  "find (\<lambda>u. u_login u = name) us = None \<longleftrightarrow> name \<notin> set (map u_login us)"
  by (auto simp: find_None_iff)

lemma get_user_None: "get_user db name = None \<longleftrightarrow> name \<notin> set (map u_login (users db))"
  by (simp add: get_user_def find_login_None)

lemma get_password_hash_Inr:
  "secret_error pw = None \<Longrightarrow> get_password_hash salt pw = Inr (Bcrypt salt (take 72 pw))"
  by (simp add: get_password_hash_def)

lemma secret_error_pw3: "secret_error ''pw3'' = None" "secret_error ''pw4'' = None"
  by (simp_all add: secret_error_def MAX_PASSWORD_SIZE_def)

lemma create_user_Inr:
  "create_user user db salt fault = (Inr r, db') \<Longrightarrow>
     status r = 201 \<and> users db' = users db @ [data r] \<and>
     u_login (data r) = login user \<and>
     get_password_hash salt (password user) = Inr (u_password (data r))"
  by (auto simp: create_user_def write_defs
           split: option.splits if_splits store_exc.splits sum.splits fault.splits prod.splits)

lemma add_user_carol:
  "add_user \<lparr>login = ''carol'', password = ''pw3''\<rparr> db1 ''s3'' None =
     (Inr \<lparr>status = 201, data = carol\<rparr>, db1\<lparr>users := [alice, bob, carol]\<rparr>)"
  by (simp add: add_user_def check_unique_login_def create_user_def write_defs
        db1_def alice_def bob_def carol_def next_id_def get_password_hash_def
        secret_error_def MAX_PASSWORD_SIZE_def)

text \<open>
  C2, as the code has it. The uniqueness pre-check and the handler of the insert-time
  integrity violation do not raise the same exception: for the login \<open>alice\<close>, which is
  taken, \<open>check_unique_login\<close> raises 409 with its own detail and \<open>create_user\<close> raises
  400 with \<open>A user with this login already exists.\<close>
\<close>

theorem login_taken_errors_differ:
  "check_unique_login \<lparr>login = ''alice'', password = ''pw3''\<rparr> db1 =
     Inl (HTTPException 409 login_registered_detail []) \<and>
   fst (create_user \<lparr>login = ''alice'', password = ''pw3''\<rparr> db1 ''s3'' None) =
     Inl (HTTPException 400 ''A user with this login already exists.'' []) \<and>
   HTTPException 409 login_registered_detail [] \<noteq>
     HTTPException 400 ''A user with this login already exists.'' []"
  by (simp add: check_unique_login_def create_user_def write_defs db1_def alice_def
        bob_def HTTP_409_CONFLICT_def HTTP_400_BAD_REQUEST_def get_password_hash_def
        secret_error_def MAX_PASSWORD_SIZE_def)

text \<open>
  C2, amended. When a login is not yet registered, the passwords are ones the hasher
  accepts and the store raises nothing, registering the login succeeds with status 201 and
  appends the row; registering the same login again is rejected by the pre-check with 409
  and the store is left as it was. An insert of a login that is taken, reached without the
  pre-check, is rejected by \<open>create_user\<close> with 400 and a different detail, the store again
  left as it was.
\<close>

theorem register_twice:
  "get_user db (login user) = None \<Longrightarrow> login user' = login user \<Longrightarrow>
   secret_error (password user) = None \<Longrightarrow> secret_error (password user') = None \<Longrightarrow>
     (\<exists>row. add_user user db salt None =
               (Inr \<lparr>status = 201, data = row\<rparr>, db\<lparr>users := users db @ [row]\<rparr>) \<and>
            add_user user' (db\<lparr>users := users db @ [row]\<rparr>) salt' fault' =
               (Inl (HTTPException 409 login_registered_detail []),
                db\<lparr>users := users db @ [row]\<rparr>) \<and>
            create_user user' (db\<lparr>users := users db @ [row]\<rparr>) salt' None =
               (Inl (HTTPException 400 ''A user with this login already exists.'' []),
                db\<lparr>users := users db @ [row]\<rparr>))"
proof -
  assume n: "get_user db (login user) = None" and eq: "login user' = login user"
    and p: "secret_error (password user) = None" and p': "secret_error (password user') = None"
  let ?row = "\<lparr>u_id = Some (next_id (map u_id (users db))), u_login = login user,
               u_password = Bcrypt salt (take 72 (password user))\<rparr>"
  let ?db = "db\<lparr>users := users db @ [?row]\<rparr>"
  from n have f: "find (\<lambda>u. u_login u = login user) (users db) = None"
    by (simp add: get_user_def)
  from n have m: "login user \<notin> set (map u_login (users db))"
    by (simp add: get_user_None)
  from f m p have 1: "add_user user db salt None = (Inr \<lparr>status = 201, data = ?row\<rparr>, ?db)"
    by (simp add: add_user_def check_unique_login_def create_user_def write_defs
          get_password_hash_Inr)
  have "find (\<lambda>u. u_login u = login user') (users ?db) \<noteq> None"
    using eq by (simp add: find_login_None)
  then have 2: "add_user user' ?db salt' fault' =
      (Inl (HTTPException 409 login_registered_detail []), ?db)"
    by (auto simp: add_user_def check_unique_login_def HTTP_409_CONFLICT_def split: option.splits)
  have 3: "create_user user' ?db salt' None =
      (Inl (HTTPException 400 ''A user with this login already exists.'' []), ?db)"
    using eq p' by (simp add: create_user_def write_defs HTTP_400_BAD_REQUEST_def
          get_password_hash_Inr)
  from 1 2 3 show ?thesis by blast
qed

text \<open>
  \<open>carol\<close> registers in the small installation, then once more with another password.
\<close>

theorem register_twice_witness:
  "get_user db1 ''carol'' = None \<and>
   secret_error ''pw3'' = None \<and> secret_error ''pw4'' = None \<and>
   add_user \<lparr>login = ''carol'', password = ''pw3''\<rparr> db1 ''s3'' None =
     (Inr \<lparr>status = 201, data = carol\<rparr>, db1\<lparr>users := [alice, bob, carol]\<rparr>) \<and>
   add_user \<lparr>login = ''carol'', password = ''pw4''\<rparr> (db1\<lparr>users := [alice, bob, carol]\<rparr>)
       ''s4'' None =
     (Inl (HTTPException 409 login_registered_detail []), db1\<lparr>users := [alice, bob, carol]\<rparr>) \<and>
   create_user \<lparr>login = ''carol'', password = ''pw4''\<rparr> (db1\<lparr>users := [alice, bob, carol]\<rparr>)
       ''s4'' None =
     (Inl (HTTPException 400 ''A user with this login already exists.'' []),
      db1\<lparr>users := [alice, bob, carol]\<rparr>)"
proof -
  have n: "get_user db1 (login \<lparr>login = ''carol'', password = ''pw3''\<rparr>) = None"
    by (simp add: get_user_def db1_def alice_def bob_def)
  have e: "login \<lparr>login = ''carol'', password = ''pw4''\<rparr> =
           login \<lparr>login = ''carol'', password = ''pw3''\<rparr>"
    by simp
  have p: "secret_error (password \<lparr>login = ''carol'', password = ''pw3''\<rparr>) = None"
    by (simp add: secret_error_pw3)
  have p': "secret_error (password \<lparr>login = ''carol'', password = ''pw4''\<rparr>) = None"
    by (simp add: secret_error_pw3)
  have u: "users db1 = [alice, bob]" by (simp add: db1_def)
  from register_twice [OF n e p p', of "''s3''" "''s4''" None] add_user_carol u n secret_error_pw3
  show ?thesis by auto
qed

text \<open>
  C10. A registration that succeeds returns to the caller what \<open>create_user\<close> returns,
  untouched: status 201 and the row as it was appended to the users table, with the login
  of the request and, in its password field, the hash of the request's password under the
  salt drawn. The field holds a \<open>pw_hash\<close>, never the password itself.
\<close>

theorem registration_returns_stored_row:
  "add_user user db salt fault = (Inr r, db') \<Longrightarrow>
     create_user user db salt fault = (Inr r, db') \<and>
     status r = 201 \<and>
     users db' = users db @ [data r] \<and>
     u_login (data r) = login user \<and>
     get_password_hash salt (password user) = Inr (u_password (data r))"
proof -
  assume a: "add_user user db salt fault = (Inr r, db')"
  then have c: "create_user user db salt fault = (Inr r, db')"
    by (cases "check_unique_login user db") (simp_all add: add_user_def)
  from create_user_Inr[OF c] c show ?thesis by simp
qed

text \<open>The registration of \<open>carol\<close> returns her row, whose password field is a hash.\<close>

theorem registration_returns_stored_row_witness:
  "add_user \<lparr>login = ''carol'', password = ''pw3''\<rparr> db1 ''s3'' None =
     (Inr \<lparr>status = 201, data = carol\<rparr>, db1\<lparr>users := [alice, bob, carol]\<rparr>) \<and>
   users (db1\<lparr>users := [alice, bob, carol]\<rparr>) = users db1 @ [carol] \<and>
   get_password_hash ''s3'' ''pw3'' = Inr (u_password carol) \<and>
   u_password carol = Bcrypt ''s3'' ''pw3''"
  using registration_returns_stored_row [OF add_user_carol] add_user_carol
  by (simp add: carol_def)

subsection \<open>Writes that fail\<close>

text \<open>
  C6, as the code has it. \<open>create_user\<close> catches \<^verbatim>\<open>IntegrityError\<close> only: when the store
  raises \<^verbatim>\<open>OperationalError\<close> during the commit of the registration of \<open>carol\<close>, that
  exception reaches the caller as it is, not as an \<open>HTTPException\<close>.
\<close>

theorem create_user_leaks_store_exception:
  "fst (create_user \<lparr>login = ''carol'', password = ''pw3''\<rparr> db1 ''s3''
          (Some (AtCommit OperationalError))) =
     Inl (StoreException OperationalError)"
  by (simp add: create_user_def write_defs get_password_hash_def secret_error_def
        MAX_PASSWORD_SIZE_def db1_def alice_def bob_def)

text \<open>
  C6, amended. For folder, theme, record and knowledge-queue creation, every exception
  the store raises during the commit of the write is caught, the session is rolled back to
  the store as it was, and the operation's own 400 is raised. For user creation, with a
  password the hasher accepts, this holds for an integrity violation, the one of a login
  that is taken included; any other exception of the commit reaches the caller as it was
  raised, the store as it was.
\<close>

theorem write_failures_by_operation:
  "add_folder folder_data user_id db now (Some (AtCommit e)) =
     (Inl (HTTPException 400 ''Failed to add folder.'' []), db) \<and>
   add_theme theme_data folder_id db now (Some (AtCommit e)) =
     (Inl (HTTPException 400 ''Failed to add theme.'' []), db) \<and>
   add_record record_data theme_id db now (Some (AtCommit e)) =
     (Inl (HTTPException 400 ''Failed to add record.'' []), db) \<and>
   add_knowledge_queue queue_data user_id db now (Some (AtCommit e)) =
     (Inl (HTTPException 400 ''Failed to add knowledge queue.'' []), db) \<and>
   (secret_error (password user) = None \<longrightarrow>
      (login user \<notin> set (map u_login (users db)) \<longrightarrow>
         create_user user db salt (Some (AtCommit IntegrityError)) =
           (Inl (HTTPException 400 ''A user with this login already exists.'' []), db)) \<and>
      (login user \<in> set (map u_login (users db)) \<longrightarrow>
         create_user user db salt None =
           (Inl (HTTPException 400 ''A user with this login already exists.'' []), db)) \<and>
      (login user \<notin> set (map u_login (users db)) \<and> e \<noteq> IntegrityError \<longrightarrow>
         create_user user db salt (Some (AtCommit e)) = (Inl (StoreException e), db)))"
  by (cases e)
     (simp_all add: add_folder_def add_theme_def add_record_def add_knowledge_queue_def
        create_user_def write_defs HTTP_400_BAD_REQUEST_def get_password_hash_Inr)

text \<open>
  An outage at the commit while \<open>bob\<close> adds a folder gives 400 and the store unchanged; an
  outage at the commit while \<open>carol\<close> registers gives the raw exception; an insert of the
  login \<open>alice\<close>, which is taken, gives 400.
\<close>

theorem write_failures_by_operation_witness:
  "add_folder \<lparr>fb_text_folder = ''French'', fb_number_of_topics = None,
       fb_last_open_date_time = None\<rparr> (Some 2) db1 1000 (Some (AtCommit OperationalError)) =
     (Inl (HTTPException 400 ''Failed to add folder.'' []), db1) \<and>
   create_user \<lparr>login = ''carol'', password = ''pw3''\<rparr> db1 ''s3''
       (Some (AtCommit OperationalError)) =
     (Inl (StoreException OperationalError), db1) \<and>
   create_user \<lparr>login = ''alice'', password = ''pw3''\<rparr> db1 ''s3'' None =
     (Inl (HTTPException 400 ''A user with this login already exists.'' []), db1)"
proof -
  let ?f = "\<lparr>fb_text_folder = ''French'', fb_number_of_topics = None,
       fb_last_open_date_time = None\<rparr>"
  let ?c = "\<lparr>login = ''carol'', password = ''pw3''\<rparr>"
  let ?a = "\<lparr>login = ''alice'', password = ''pw3''\<rparr>"
  have m: "login ?a \<in> set (map u_login (users db1))"
    by (simp add: db1_def alice_def)
  have n: "login ?c \<notin> set (map u_login (users db1))"
    by (simp add: db1_def alice_def bob_def)
  have p: "secret_error (password ?c) = None" "secret_error (password ?a) = None"
    by (simp_all add: secret_error_pw3)
  from write_failures_by_operation
    [of ?f "Some 2" db1 1000 OperationalError _ _ _ _ _ ?c "''s3''"] n p
  have 1: "add_folder ?f (Some 2) db1 1000 (Some (AtCommit OperationalError)) =
       (Inl (HTTPException 400 ''Failed to add folder.'' []), db1)"
    and 2: "create_user ?c db1 ''s3'' (Some (AtCommit OperationalError)) =
       (Inl (StoreException OperationalError), db1)"
    by simp_all
  from m p write_failures_by_operation
    [of ?f "Some 2" db1 1000 OperationalError _ _ _ _ _ ?a "''s3''"]
  have 3: "create_user ?a db1 ''s3'' None =
       (Inl (HTTPException 400 ''A user with this login already exists.'' []), db1)"
    by blast
  from 1 2 3 show ?thesis by blast
qed

text \<open>
  When it is the reload that raises, after a commit that succeeded, the exception is
  caught and answered with the same 400, and the row stays in the store: the store ends as
  after a creation that succeeded.
\<close>

lemma reload_failure_keeps_row:
  "fst (add_folder folder_data user_id db now (Some (AtRefresh e))) =
     Inl (HTTPException 400 ''Failed to add folder.'' []) \<and>
   snd (add_folder folder_data user_id db now (Some (AtRefresh e))) =
     snd (add_folder folder_data user_id db now None) \<and>
   length (folders (snd (add_folder folder_data user_id db now None))) = length (folders db) + 1"
  by (simp add: add_folder_def write_defs HTTP_400_BAD_REQUEST_def)

subsection \<open>Folders\<close>

lemma add_folder_french:
  "add_folder \<lparr>fb_text_folder = ''French'', fb_number_of_topics = None,
       fb_last_open_date_time = None\<rparr> (Some 2) db1 1000 None =
     (Inr french, db1\<lparr>folders := [spanish, french]\<rparr>)"
  by (simp add: add_folder_def write_defs db1_def french_def spanish_def
        next_id_def column_default_def)

text \<open>
  C7. A folder that \<open>add_folder\<close> has created for the user \<open>U\<close> is in the list
  \<open>get_user_folders\<close> returns for \<open>U\<close> on the session that results, and in the list of no
  other user.
\<close>

theorem created_folder_listed_for_owner_only:
  "add_folder folder_data U db now fault = (Inr row, db') \<Longrightarrow>
     row \<in> set (get_user_folders U db') \<and>
     (\<forall>U2. U2 \<noteq> U \<longrightarrow> row \<notin> set (get_user_folders U2 db'))"
  by (auto simp: add_folder_def write_defs get_user_folders_def
           split: option.splits fault.splits)

text \<open>The folder \<open>bob\<close> adds is in his list and not in the list of \<open>alice\<close>.\<close>

theorem created_folder_listed_for_owner_only_witness:
  "add_folder \<lparr>fb_text_folder = ''French'', fb_number_of_topics = None,
       fb_last_open_date_time = None\<rparr> (Some 2) db1 1000 None =
     (Inr french, db1\<lparr>folders := [spanish, french]\<rparr>) \<and>
   french \<in> set (get_user_folders (Some 2) (db1\<lparr>folders := [spanish, french]\<rparr>)) \<and>
   french \<notin> set (get_user_folders (Some 1) (db1\<lparr>folders := [spanish, french]\<rparr>))"
  using created_folder_listed_for_owner_only [OF add_folder_french] add_folder_french
  by simp

subsection \<open>Themes and records\<close>

lemma add_theme_ok:
  "\<exists>row. add_theme theme_data folder_id db now None =
           (Inr row, db\<lparr>themes := themes db @ [row]\<rparr>) \<and>
         t_folder_id row = Some folder_id"
  by (simp add: add_theme_def write_defs)

lemma add_record_ok:
  "\<exists>row. add_record record_data theme_id db now None =
           (Inr row, db\<lparr>records := records db @ [row]\<rparr>) \<and>
         r_theme_id row = Some theme_id"
  by (simp add: add_record_def write_defs)

lemma cookie_of_bob:
  "cookie_of ''bob'' 1000 =
     Compact ''HS256'' \<lparr>sub = Some ''bob'', expiry = Some 2800\<rparr>
       (Sign ''secret'' ''HS256'' \<lparr>sub = Some ''bob'', expiry = Some 2800\<rparr>)"
  by (simp add: cookie_of_def create_access_token_def jwt_encode_def cfg0_def Let_def)

lemma bob_resolves: "get_current_user cfg0 (Some (cookie_of ''bob'' 1000)) db1 1000 = Inr bob"
  by (simp add: cookie_of_bob get_current_user_def cfg0_def get_user_def db1_def alice_def bob_def)

text \<open>
  C8. For a request of any authenticated user and any folder id, \<open>create_theme\<close> is
  \<open>add_theme\<close> on the folder id alone: the user the cookie resolves to is not looked at, so
  no ownership of the folder is checked, and when the store raises nothing the theme is
  created under that id. Listing themes is the filter of the table by the folder id. The
  same holds for records under a theme id.
\<close>

theorem theme_and_record_operations_ignore_owner:
  "get_current_user cfg cookie db now = Inr u \<Longrightarrow>
     create_theme cfg folder_id theme_data cookie db now fault =
       add_theme theme_data folder_id db now fault \<and>
     create_record cfg theme_id record_data cookie db now fault =
       add_record record_data theme_id db now fault \<and>
     (\<exists>row. add_theme theme_data folder_id db now None =
              (Inr row, db\<lparr>themes := themes db @ [row]\<rparr>) \<and>
            t_folder_id row = Some folder_id) \<and>
     (\<exists>row. add_record record_data theme_id db now None =
              (Inr row, db\<lparr>records := records db @ [row]\<rparr>) \<and>
            r_theme_id row = Some theme_id) \<and>
     read_themes folder_id db = Inr (filter (\<lambda>t. t_folder_id t = Some folder_id) (themes db)) \<and>
     read_records theme_id db = Inr (filter (\<lambda>r. r_theme_id r = Some theme_id) (records db))"
  using add_theme_ok[of theme_data folder_id db now] add_record_ok[of record_data theme_id db now]
  by (simp add: create_theme_def create_record_def read_themes_def read_records_def
        get_themes_by_folder_def get_records_by_theme_def)

text \<open>
  \<open>bob\<close>, whose id is 2, creates a theme in folder 1, which belongs to \<open>alice\<close>, and lists
  its themes and the records of its theme.
\<close>

theorem theme_and_record_operations_ignore_owner_witness:
  "get_current_user cfg0 (Some (cookie_of ''bob'' 1000)) db1 1000 = Inr bob \<and>
   u_id bob = Some 2 \<and> f_id spanish = Some 1 \<and> f_user_id spanish = Some 1 \<and>
   create_theme cfg0 1 \<lparr>tc_name_theme = ''Nouns'', tc_last_open_date_time = None,
       tc_number_of_records = None\<rparr> (Some (cookie_of ''bob'' 1000)) db1 1000 None =
     (Inr nouns, db1\<lparr>themes := [verbs, nouns]\<rparr>) \<and>
   read_themes 1 db1 = Inr [verbs] \<and>
   read_records 1 db1 = Inr [ser]"
proof -
  have t: "add_theme \<lparr>tc_name_theme = ''Nouns'', tc_last_open_date_time = None,
       tc_number_of_records = None\<rparr> 1 db1 1000 None = (Inr nouns, db1\<lparr>themes := [verbs, nouns]\<rparr>)"
    by (simp add: add_theme_def write_defs db1_def verbs_def nouns_def
          next_id_def column_default_def)
  have l: "filter (\<lambda>t. t_folder_id t = Some 1) (themes db1) = [verbs]"
    by (simp add: db1_def verbs_def)
  have r: "filter (\<lambda>r. r_theme_id r = Some 1) (records db1) = [ser]"
    by (simp add: db1_def ser_def)
  have i: "u_id bob = Some 2 \<and> f_id spanish = Some 1 \<and> f_user_id spanish = Some 1"
    by (simp add: bob_def spanish_def)
  from theme_and_record_operations_ignore_owner [OF bob_resolves,
      of 1 "\<lparr>tc_name_theme = ''Nouns'', tc_last_open_date_time = None,
       tc_number_of_records = None\<rparr>" None 1 _ ]
    t l r i bob_resolves
  show ?thesis by simp
qed

subsection \<open>Which operations resolve the caller\<close>

text \<open>
  Six of the eight entity operations are not entered when the resolver raises: the request
  is answered with the resolver's exception and the store is as it was.
\<close>

lemma protected_operations_reject:
  "get_current_user cfg cookie db now = Inl e \<Longrightarrow>
     (\<forall>folder_id. op \<noteq> ReadThemes folder_id) \<Longrightarrow> (\<forall>theme_id. op \<noteq> ReadRecords theme_id) \<Longrightarrow>
     router cfg op cookie db now fault = (Inl e, db)"
  by (cases op)
     (simp_all add: add_one_folder_def read_user_folders_def create_theme_def create_record_def
        create_knowledge_queue_def read_knowledge_queue_def)

text \<open>
  C1, at a request without a cookie. The resolver would raise \<open>credentials_exception\<close>,
  but listing the themes of folder 1 and the records of theme 1 answers with the rows:
  \<open>read_themes\<close> and \<open>read_records\<close> do not call it.
\<close>

theorem listing_themes_and_records_without_cookie:
  "get_current_user cfg0 None db1 1000 = Inl credentials_exception \<and>
   fst (router cfg0 (ReadThemes 1) None db1 1000 None) = Inr (ThemesBody [verbs]) \<and>
   fst (router cfg0 (ReadRecords 1) None db1 1000 None) = Inr (RecordsBody [ser])"
  by (simp add: get_current_user_def read_themes_def read_records_def get_themes_by_folder_def
        get_records_by_theme_def db1_def verbs_def ser_def)

subsection \<open>A time to live of zero\<close>

lemma zero_delta_is_default:
  "create_access_token cfg payload (Some 0) now = create_access_token cfg payload None now"
  by (simp add: create_access_token_def)

text \<open>
  C5, at a time to live of zero with the configured default of 30 minutes. The token
  issued at second 1000 carries the expiry 2800, not 1000, and \<open>jwt_decode\<close> accepts it at
  second 1000.
\<close>

theorem zero_ttl_token_not_expired:
  "create_access_token cfg0 \<lparr>sub = Some ''alice'', expiry = None\<rparr> (Some 0) 1000 =
     Compact ''HS256'' \<lparr>sub = Some ''alice'', expiry = Some 2800\<rparr>
       (Sign ''secret'' ''HS256'' \<lparr>sub = Some ''alice'', expiry = Some 2800\<rparr>) \<and>
   jwt_decode (create_access_token cfg0 \<lparr>sub = Some ''alice'', expiry = None\<rparr> (Some 0) 1000)
     ''secret'' [''HS256''] 1000 = Inr \<lparr>sub = Some ''alice'', expiry = Some 2800\<rparr>"
  by (simp add: create_access_token_def jwt_encode_def cfg0_def Let_def)

subsection \<open>The next alert of a knowledge-queue entry\<close>

text \<open>
  Whatever the request carries, an entry that was created has both its creation time and
  its next alert set to the time of the write: the first by the service, the second by the
  default of the column, since the service has set the attribute to \<^verbatim>\<open>None\<close>.
\<close>

lemma add_knowledge_queue_stamps:
  "add_knowledge_queue queue_data user_id db now fault = (Inr row, db') \<Longrightarrow>
     next_alert_card row = Some now \<and> create_date_time row = Some now"
  by (auto simp: add_knowledge_queue_def write_defs column_default_def
           split: option.splits fault.splits)

text \<open>
  C9, at a request of \<open>alice\<close> that carries a next alert of 99999 and a creation time of 5,
  written at second 1000. The entry returned has the creation time 1000 and the next alert
  1000: not the caller's value, and not null.
\<close>

theorem knowledge_queue_next_alert_stored:
  "fst (add_knowledge_queue
      \<lparr>qc_content_knowledge_queue = ''ser = to be'', qc_completed_task_status = None,
       qc_number_of_cycles = None, qc_create_date_time = Some 5,
       qc_next_alert_card = Some 99999\<rparr> (Some 1) db1 1000 None) =
     Inr \<lparr>q_id = Some 1, content_knowledge_queue = ''ser = to be'',
          completed_task_status = Some False, number_of_cycles = Some 0,
          create_date_time = Some 1000, next_alert_card = Some 1000, q_user_id = Some 1\<rparr>"
  by (simp add: add_knowledge_queue_def write_defs column_default_def db1_def next_id_def)

end
